theory Spec2Isabelle
  imports Main "HOL-Library.Char_ord" "HOL-Library.AList"
begin

section \<open>Identifier normalizer (src/utils/name-sanitizer.ts)\<close>

text \<open>
  JavaScript strings are modelled as \<open>string\<close>. The three regular expressions of
  \<open>sanitizeModuleFederationName\<close> carry no \<open>i\<close>, \<open>m\<close> or \<open>u\<close> flag, so they look at one
  code unit at a time and only distinguish the ASCII classes written in them; every other
  code unit is treated like any character outside \<open>[A-Za-z0-9_$-]\<close>.
\<close>

definition lower :: "char \<Rightarrow> bool" where
  \<comment> \<open>the class \<open>[a-z]\<close>\<close>
  "lower c \<longleftrightarrow> CHR ''a'' \<le> c \<and> c \<le> CHR ''z''"

definition upper :: "char \<Rightarrow> bool" where
  \<comment> \<open>the class \<open>[A-Z]\<close>\<close>
  "upper c \<longleftrightarrow> CHR ''A'' \<le> c \<and> c \<le> CHR ''Z''"

definition digit :: "char \<Rightarrow> bool" where
  \<comment> \<open>the class \<open>[0-9]\<close>\<close>
  "digit c \<longleftrightarrow> CHR ''0'' \<le> c \<and> c \<le> CHR ''9''"

definition letter :: "char \<Rightarrow> bool" where
  \<comment> \<open>the class \<open>[a-zA-Z]\<close>\<close>
  "letter c \<longleftrightarrow> lower c \<or> upper c"

definition alnum :: "char \<Rightarrow> bool" where
  \<comment> \<open>the class \<open>[a-zA-Z0-9]\<close>\<close>
  "alnum c \<longleftrightarrow> lower c \<or> upper c \<or> digit c"

definition separator :: "char \<Rightarrow> bool" where
  \<comment> \<open>the class \<open>[-_]\<close>\<close>
  "separator c \<longleftrightarrow> c = CHR ''-'' \<or> c = CHR ''_''"

definition toUpperCase :: "char \<Rightarrow> char" where
  \<comment> \<open>\<open>letter.toUpperCase()\<close>; the callback only ever receives one character of \<open>[a-z]\<close>\<close>
  "toUpperCase c = (if lower c then char_of (of_char c - (32::nat)) else c)"

text \<open>
  \<open>.replace(/[-_]([a-z])/g, (_, letter) => letter.toUpperCase())\<close>: a global replace scans
  from the left; where a separator is followed by a lower-case letter the two characters are
  replaced by the upper-cased letter and the scan resumes after them, otherwise the
  character is copied.
\<close>

fun camelCase :: "string \<Rightarrow> string" where
  "camelCase (c # d # cs) =
     (if separator c \<and> lower d then toUpperCase d # camelCase cs
      else c # camelCase (d # cs))"
| "camelCase cs = cs"

definition stripInvalid :: "string \<Rightarrow> string" where
  \<comment> \<open>\<open>.replace(/[^a-zA-Z0-9]/g, '')\<close>\<close>
  "stripInvalid s = filter alnum s"

definition prefixLeadingDigit :: "string \<Rightarrow> string" where
  \<comment> \<open>\<open>.replace(/^[0-9]/, '_$&')\<close>: \<open>$&\<close> is the matched digit\<close>
  "prefixLeadingDigit s =
     (case s of [] \<Rightarrow> [] | c # cs \<Rightarrow> if digit c then CHR ''_'' # c # cs else c # cs)"

definition sanitizeModuleFederationName :: "string \<Rightarrow> string" where
  "sanitizeModuleFederationName name =
     prefixLeadingDigit (stripInvalid (camelCase name))"

definition identStart :: "char \<Rightarrow> bool" where
  \<comment> \<open>the class \<open>[a-zA-Z_$]\<close>\<close>
  "identStart c \<longleftrightarrow> lower c \<or> upper c \<or> c = CHR ''_'' \<or> c = CHR ''$''"

definition identPart :: "char \<Rightarrow> bool" where
  \<comment> \<open>the class \<open>[a-zA-Z0-9_$]\<close>\<close>
  "identPart c \<longleftrightarrow> lower c \<or> upper c \<or> digit c \<or> c = CHR ''_'' \<or> c = CHR ''$''"

definition isValidIdentifier :: "string \<Rightarrow> bool" where
  \<comment> \<open>\<open>/^[a-zA-Z_$][a-zA-Z0-9_$]*$/.test(name)\<close>\<close>
  "isValidIdentifier name =
     (case name of [] \<Rightarrow> False | c # cs \<Rightarrow> identStart c \<and> list_all identPart cs)"

definition lettersDigitsLeadingUnderscore :: "string \<Rightarrow> bool" where
  \<comment> \<open>only letters and digits, after at most one leading underscore\<close>
  "lettersDigitsLeadingUnderscore s =
     (case s of [] \<Rightarrow> True | c # cs \<Rightarrow> (alnum c \<or> c = CHR ''_'') \<and> list_all alnum cs)"


section \<open>Configuration records (src/types/config.ts, src/types/index.ts)\<close>

text \<open>
  Several interfaces of the source share field names (\<open>name\<close>, \<open>url\<close>, \<open>type\<close>, \<open>exposes\<close>,
  \<open>remotes\<close>, \<open>shared\<close>); the record fields carry a prefix naming their interface. An optional
  field \<open>f?: T\<close> is a \<open>T option\<close>, \<open>None\<close> for an absent field. An object used as a dictionary
  (\<open>Record<string, T>\<close>) is an association list of its own properties; claims only look keys
  up in it. \<open>port\<close> is only ever copied, never computed with.
\<close>

datatype AppType = host | remote

datatype Framework = react | vue

datatype MonorepoTool = nx | turborepo | pnpmWorkspaces
  \<comment> \<open>\<open>'nx' | 'turborepo' | 'pnpm'\<close>; the last one renamed, \<open>pnpm\<close> being a package manager too\<close>

datatype PackageManager = npm | yarn | pnpm

record ProjectConfig =
  proj_type :: AppType
  proj_name :: string
  proj_port :: int
  proj_framework :: Framework
  proj_typescript :: bool
  proj_isMonorepo :: bool
  proj_monorepoTool :: "MonorepoTool option"
  proj_packageManager :: PackageManager

record RemoteReference =
  ref_name :: string
  ref_url :: string

record SharedDependency =
  singleton :: "bool option"
  strictVersion :: "bool option"
  requiredVersion :: "string option"
  eager :: "bool option"

record RemoteEntry =
  remote_name :: string
  remote_url :: string
  remote_entry :: "string option"

record BuildConfig =
  outputPath :: "string option"
  publicPath :: "string option"

record DevServerConfig =
  hot :: "bool option"
  historyApiFallback :: "bool option"
  cors :: "bool option"

record MicroFrontendConfig =
  cfg_name :: string
  cfg_type :: AppType
  cfg_port :: int
  cfg_framework :: Framework
  cfg_exposes :: "(string \<times> string) list option"
  cfg_remotes :: "RemoteEntry list option"
  cfg_shared :: "(string \<times> SharedDependency) list option"
  cfg_build :: "BuildConfig option"
  cfg_devServer :: "DevServerConfig option"

record ModuleFederationConfig =
  mf_name :: string
  mf_filename :: "string option"
  mf_exposes :: "(string \<times> string) list option"
  mf_remotes :: "(string \<times> string) list option"
  mf_shared :: "(string \<times> SharedDependency) list option"

section \<open>Configuration generator (src/config/config-generator.ts)\<close>

fun generateSharedConfig :: "Framework \<Rightarrow> (string \<times> SharedDependency) list" where
  "generateSharedConfig react =
     [(''react'', \<lparr>singleton = Some True, strictVersion = Some False,
                   requiredVersion = Some ''^18.0.0'', eager = Some False\<rparr>),
      (''react-dom'', \<lparr>singleton = Some True, strictVersion = Some False,
                       requiredVersion = Some ''^18.0.0'', eager = Some False\<rparr>)]"
| "generateSharedConfig vue =
     [(''vue'', \<lparr>singleton = Some True, strictVersion = Some False,
                 requiredVersion = Some ''^3.0.0'', eager = Some False\<rparr>)]"

text \<open>
  \<open>generateHostConfig\<close> has no \<open>throw\<close> and calls nothing that throws: it is a total function
  from its four arguments to a configuration record.
\<close>

definition generateHostConfig ::
  "string \<Rightarrow> int \<Rightarrow> Framework \<Rightarrow> RemoteReference list \<Rightarrow> MicroFrontendConfig" where
  "generateHostConfig name port framework remotes =
     \<lparr>cfg_name = sanitizeModuleFederationName name,
      cfg_type = host,
      cfg_port = port,
      cfg_framework = framework,
      cfg_exposes = None,
      cfg_remotes = Some (map (\<lambda>r. \<lparr>remote_name = ref_name r, remote_url = ref_url r,
                                      remote_entry = Some ''remoteEntry.js''\<rparr>) remotes),
      cfg_shared = Some (generateSharedConfig framework),
      cfg_build = Some \<lparr>outputPath = Some ''dist'', publicPath = Some ''auto''\<rparr>,
      cfg_devServer = Some \<lparr>hot = Some True, historyApiFallback = Some True,
                             cors = Some True\<rparr>\<rparr>"

text \<open>
  The fourth parameter of \<open>generateRemoteConfig\<close> has the default value
  \<open>{ './App': './src/App' }\<close>, used when the argument is omitted (\<open>None\<close>).
\<close>

definition generateRemoteConfig ::
  "string \<Rightarrow> int \<Rightarrow> Framework \<Rightarrow> (string \<times> string) list option \<Rightarrow> MicroFrontendConfig" where
  "generateRemoteConfig name port framework exposesArg =
     (let exposes = (case exposesArg of None \<Rightarrow> [(''./App'', ''./src/App'')] | Some e \<Rightarrow> e)
      in \<lparr>cfg_name = sanitizeModuleFederationName name,
          cfg_type = remote,
          cfg_port = port,
          cfg_framework = framework,
          cfg_exposes = Some exposes,
          cfg_remotes = None,
          cfg_shared = Some (generateSharedConfig framework),
          cfg_build = Some \<lparr>outputPath = Some ''dist'', publicPath = Some ''auto''\<rparr>,
          cfg_devServer = Some \<lparr>hot = Some True, historyApiFallback = Some True,
                                 cors = Some True\<rparr>\<rparr>)"

section \<open>Federation configuration (src/config/federation-config.ts)\<close>

fun getSharedDependencies :: "Framework \<Rightarrow> (string \<times> SharedDependency) list" where
  "getSharedDependencies react =
     [(''react'', \<lparr>singleton = Some True, strictVersion = Some False,
                   requiredVersion = Some ''^18.0.0'', eager = Some False\<rparr>),
      (''react-dom'', \<lparr>singleton = Some True, strictVersion = Some False,
                       requiredVersion = Some ''^18.0.0'', eager = Some False\<rparr>)]"
| "getSharedDependencies vue =
     [(''vue'', \<lparr>singleton = Some True, strictVersion = Some False,
                 requiredVersion = Some ''^3.0.0'', eager = Some False\<rparr>)]"

section \<open>Build-tool configuration (src/templates/webpack.config.template.js)\<close>

text \<open>
  \<open>remotes[remote.name] = ...\<close> on the object literal \<open>{}\<close> creates or overwrites the own
  property of that name, with one exception of the language: the key \<open>__proto__\<close> reaches
  the inherited setter, which ignores a string value, so no property is created.
\<close>

definition assignProperty ::
  "(string \<times> string) list \<Rightarrow> string \<Rightarrow> string \<Rightarrow> (string \<times> string) list" where
  "assignProperty obj k v = (if k = ''__proto__'' then obj else AList.update k v obj)"

fun forEachRemote :: "RemoteEntry list \<Rightarrow> (string \<times> string) list \<Rightarrow> (string \<times> string) list" where
  "forEachRemote [] remotes = remotes"
| "forEachRemote (r # rs) remotes =
     forEachRemote rs
       (assignProperty remotes (remote_name r) (remote_name r @ ''@'' @ remote_url r))"

definition buildRemotes :: "MicroFrontendConfig \<Rightarrow> (string \<times> string) list" where
  "buildRemotes mfConfig =
     (case cfg_remotes mfConfig of
        Some rs \<Rightarrow> if cfg_type mfConfig = host then forEachRemote rs [] else []
      | None \<Rightarrow> [])"

definition moduleFederationConfig :: "MicroFrontendConfig \<Rightarrow> ModuleFederationConfig" where
  "moduleFederationConfig mfConfig =
     (let remotes = buildRemotes mfConfig
      in \<lparr>mf_name = cfg_name mfConfig,
          mf_filename = Some ''remoteEntry.js'',
          mf_exposes = (if cfg_type mfConfig = remote then cfg_exposes mfConfig else None),
          mf_remotes = (if cfg_type mfConfig = host \<and> 0 < length remotes
                        then Some remotes else None),
          mf_shared = Some (case cfg_shared mfConfig of Some s \<Rightarrow> s | None \<Rightarrow> [])\<rparr>)"

definition remoteReference :: "ModuleFederationConfig \<Rightarrow> string \<Rightarrow> string option" where
  \<comment> \<open>the federation remote reference stored under a key, if any\<close>
  "remoteReference m k = (case mf_remotes m of Some obj \<Rightarrow> map_of obj k | None \<Rightarrow> None)"

section \<open>Package manifest (src/utils/package-generator.ts)\<close>

record PackageJson =
  pkg_name :: string
  pkg_version :: string
  pkg_description :: string
  pkg_private :: bool
  pkg_scripts :: "(string \<times> string) list"
  pkg_dependencies :: "(string \<times> string) list"
  pkg_devDependencies :: "(string \<times> string) list"

fun getDependencies :: "ProjectConfig \<Rightarrow> (string \<times> string) list" where
  "getDependencies config =
     (case proj_framework config of
        react \<Rightarrow> AList.update ''react-dom'' ''^18.2.0'' (AList.update ''react'' ''^18.2.0'' [])
      | vue \<Rightarrow> AList.update ''vue'' ''^3.4.0'' [])"

text \<open>
  \<open>getDevDependencies\<close> fills one object in three steps: the literal, the assignments made
  for a TypeScript project (with two more for \<open>react\<close>), and the assignments made for \<open>vue\<close>,
  whether or not the project uses TypeScript.
\<close>

definition getDevDependencies :: "ProjectConfig \<Rightarrow> (string \<times> string) list" where
  "getDevDependencies config =
     (let devDeps =
        [(''webpack'', ''^5.89.0''),
         (''webpack-cli'', ''^5.1.4''),
         (''webpack-dev-server'', ''^4.15.1''),
         (''html-webpack-plugin'', ''^5.6.0''),
         (''babel-loader'', ''^9.1.3''),
         (''@babel/core'', ''^7.23.7''),
         (''@babel/preset-env'', ''^7.23.7''),
         (''@babel/preset-react'', ''^7.23.3''),
         (''style-loader'', ''^3.3.4''),
         (''css-loader'', ''^6.9.0'')];
          devDepsTs =
            (if proj_typescript config then
               (let devDeps1 = AList.update ''typescript'' ''^5.3.3'' devDeps;
                    devDeps2 = AList.update ''@babel/preset-typescript'' ''^7.23.3'' devDeps1;
                    devDeps3 =
                      AList.update ''fork-ts-checker-webpack-plugin'' ''^9.0.2'' devDeps2
                in if proj_framework config = react then
                     AList.update ''@types/react-dom'' ''^18.2.18''
                       (AList.update ''@types/react'' ''^18.2.48'' devDeps3)
                   else devDeps3)
             else devDeps)
      in if proj_framework config = vue then
           AList.update ''@vue/compiler-sfc'' ''^3.4.0''
             (AList.update ''vue-loader'' ''^17.4.2'' devDepsTs)
         else devDepsTs)"

definition generatePackageJson :: "ProjectConfig \<Rightarrow> AppType \<Rightarrow> PackageJson" where
  "generatePackageJson config type =
     \<lparr>pkg_name = proj_name config,
      pkg_version = ''1.0.0'',
      pkg_description =
        (if type = host then ''Host'' else ''Remote'') @ '' application for micro-frontend'',
      pkg_private = True,
      pkg_scripts =
        [(''start'', ''webpack serve --open''),
         (''dev'', ''webpack serve''),
         (''build'', ''webpack --mode production''),
         (''clean'', ''rm -rf dist'')],
      pkg_dependencies = getDependencies config,
      pkg_devDependencies = getDevDependencies config\<rparr>"

section \<open>Application generators (src/generators/host-generator.ts, remote-generator.ts)\<close>

text \<open>
  The generators create directories and write files. The model keeps the values the name of
  the project flows into: the target directory \<open>path.join(process.cwd(), config.name)\<close>, the
  record written to \<open>micro-frontend.config.json\<close> and the record written to
  \<open>package.json\<close>. A path is the list of the arguments handed to \<open>path.join\<close>, in order;
  the working directory \<open>process.cwd()\<close> is an argument of the model.
\<close>

type_synonym path = "string list"

record AppArtifacts =
  projectPath :: path
  mfConfigFile :: MicroFrontendConfig
  packageJsonFile :: PackageJson

definition generateHostApp ::
  "string \<Rightarrow> ProjectConfig \<Rightarrow> RemoteReference list \<Rightarrow> AppArtifacts" where
  "generateHostApp cwd config remotes =
     \<lparr>projectPath = [cwd, proj_name config],
      mfConfigFile =
        generateHostConfig (proj_name config) (proj_port config) (proj_framework config) remotes,
      packageJsonFile = generatePackageJson config host\<rparr>"

definition generateRemoteApp :: "string \<Rightarrow> ProjectConfig \<Rightarrow> AppArtifacts" where
  "generateRemoteApp cwd config =
     (let exposes = [(''./App'', ''./src/App'')]
      in \<lparr>projectPath = [cwd, proj_name config],
          mfConfigFile =
            generateRemoteConfig (proj_name config) (proj_port config) (proj_framework config)
              (Some exposes),
          packageJsonFile = generatePackageJson config remote\<rparr>)"

section \<open>Workspace task pipelines (src/generators/monorepo-generator.ts)\<close>

text \<open>
  \<open>generateNxWorkspace\<close> and \<open>generateTurborepoConfig\<close> each build one object literal and
  write its \<open>JSON.stringify\<close> to a file under the workspace root. The model returns the path
  of the file and the object, as a JSON value.
\<close>

datatype json =
    JString string
  | JBool bool
  | JArray "json list"
  | JObject "(string \<times> json) list"

fun property :: "json \<Rightarrow> string \<Rightarrow> json option" where
  "property (JObject kvs) k = map_of kvs k"
| "property _ k = None"

fun propertyAt :: "json \<Rightarrow> string list \<Rightarrow> json option" where
  "propertyAt j [] = Some j"
| "propertyAt j (k # ks) = (case property j k of None \<Rightarrow> None | Some j' \<Rightarrow> propertyAt j' ks)"

definition nxConfig :: json where
  "nxConfig =
     JObject
      [(''extends'', JString ''nx/presets/npm.json''),
       (''tasksRunnerOptions'', JObject
         [(''default'', JObject
           [(''runner'', JString ''nx/tasks-runners/default''),
            (''options'', JObject
              [(''cacheableOperations'',
                JArray [JString ''build'', JString ''test'', JString ''lint''])])])]),
       (''targetDefaults'', JObject
         [(''build'', JObject
           [(''dependsOn'', JArray [JString ''^build'']),
            (''outputs'', JArray [JString ''{projectRoot}/dist''])]),
          (''dev'', JObject
           [(''dependsOn'', JArray [JString ''^build''])])])]"

definition turboConfig :: json where
  "turboConfig =
     JObject
      [(''$schema'', JString ''https://turbo.build/schema.json''),
       (''pipeline'', JObject
         [(''build'', JObject
           [(''dependsOn'', JArray [JString ''^build'']),
            (''outputs'', JArray [JString ''dist/**''])]),
          (''dev'', JObject
           [(''cache'', JBool False),
            (''persistent'', JBool True)]),
          (''clean'', JObject
           [(''cache'', JBool False)])])]"

definition generateNxWorkspace :: "string \<Rightarrow> ProjectConfig \<Rightarrow> path \<times> json" where
  "generateNxWorkspace rootPath config = ([rootPath, ''nx.json''], nxConfig)"

definition generateTurborepoConfig :: "string \<Rightarrow> ProjectConfig \<Rightarrow> path \<times> json" where
  "generateTurborepoConfig rootPath config = ([rootPath, ''turbo.json''], turboConfig)"

text \<open>
  Reading a pipeline. \<open>taskEntry\<close> is the entry of a task in the object holding one entry
  per task (\<open>targetDefaults\<close> of \<open>nx.json\<close>, \<open>pipeline\<close> of \<open>turbo.json\<close>). Turborepo caches a
  task of its pipeline unless the entry says \<open>cache: false\<close>; Nx caches the tasks listed in
  \<open>cacheableOperations\<close> of the tasks runner and those whose entry says \<open>cache: true\<close>.
\<close>

definition pipelineKey :: "MonorepoTool \<Rightarrow> string" where
  "pipelineKey tool =
     (case tool of nx \<Rightarrow> ''targetDefaults'' | turborepo \<Rightarrow> ''pipeline'' | pnpmWorkspaces \<Rightarrow> [])"

definition taskEntry :: "MonorepoTool \<Rightarrow> json \<Rightarrow> string \<Rightarrow> json option" where
  "taskEntry tool cfg task = propertyAt cfg [pipelineKey tool, task]"

definition tasks :: "MonorepoTool \<Rightarrow> json \<Rightarrow> string list" where
  "tasks tool cfg =
     (case property cfg (pipelineKey tool) of Some (JObject kvs) \<Rightarrow> map fst kvs | _ \<Rightarrow> [])"

definition dependsOn :: "MonorepoTool \<Rightarrow> json \<Rightarrow> string \<Rightarrow> json list" where
  "dependsOn tool cfg task =
     (case taskEntry tool cfg task of
        Some e \<Rightarrow> (case property e ''dependsOn'' of Some (JArray ds) \<Rightarrow> ds | _ \<Rightarrow> [])
      | None \<Rightarrow> [])"

definition dependents :: "MonorepoTool \<Rightarrow> json \<Rightarrow> string \<Rightarrow> string list" where
  \<comment> \<open>the tasks that name the given task, of the same package or of upstream packages\<close>
  "dependents tool cfg task =
     filter (\<lambda>t. JString task \<in> set (dependsOn tool cfg t)
                \<or> JString (CHR ''^'' # task) \<in> set (dependsOn tool cfg t))
       (tasks tool cfg)"

definition outputs :: "MonorepoTool \<Rightarrow> json \<Rightarrow> string \<Rightarrow> json list" where
  "outputs tool cfg task =
     (case taskEntry tool cfg task of
        Some e \<Rightarrow> (case property e ''outputs'' of Some (JArray os) \<Rightarrow> os | _ \<Rightarrow> [])
      | None \<Rightarrow> [])"

definition cacheable :: "MonorepoTool \<Rightarrow> json \<Rightarrow> string \<Rightarrow> bool" where
  "cacheable tool cfg task =
     (case tool of
        nx \<Rightarrow>
          (case propertyAt cfg [''tasksRunnerOptions'', ''default'', ''options'', ''cacheableOperations''] of
             Some (JArray ops) \<Rightarrow> JString task \<in> set ops
           | _ \<Rightarrow> False)
          \<or> (case taskEntry nx cfg task of
                Some e \<Rightarrow> property e ''cache'' = Some (JBool True)
              | None \<Rightarrow> False)
      | turborepo \<Rightarrow>
          (case taskEntry turborepo cfg task of
             Some e \<Rightarrow> property e ''cache'' \<noteq> Some (JBool False)
           | None \<Rightarrow> False)
      | pnpmWorkspaces \<Rightarrow> False)"

definition markedPersistent :: "MonorepoTool \<Rightarrow> json \<Rightarrow> string \<Rightarrow> bool" where
  "markedPersistent tool cfg task =
     (case taskEntry tool cfg task of
        Some e \<Rightarrow> property e ''persistent'' = Some (JBool True)
      | None \<Rightarrow> False)"

section \<open>Facts about the character classes\<close>

lemma alnum_not_separator: "alnum c \<Longrightarrow> \<not> separator c"
  by (auto simp: alnum_def separator_def lower_def upper_def digit_def less_eq_char_def)

lemma digit_not_lower: "digit c \<Longrightarrow> \<not> lower c"
  by (auto simp: lower_def digit_def less_eq_char_def)

lemma upper_toUpperCase: "lower c \<Longrightarrow> upper (toUpperCase c)"
  by (auto simp: lower_def upper_def toUpperCase_def less_eq_char_def)

lemma underscore_not_alnum: "\<not> alnum CHR ''_''"
  by (simp add: alnum_def lower_def upper_def digit_def less_eq_char_def)

lemma hyphen_not_alnum: "\<not> alnum CHR ''-''"
  by (simp add: alnum_def lower_def upper_def digit_def less_eq_char_def)

section \<open>The three passes of the normalizer\<close>

lemma camelCase_no_separator:
  "\<forall>c \<in> set s. \<not> separator c \<Longrightarrow> camelCase s = s"
  by (induction s rule: camelCase.induct) auto

lemma camelCase_alnum: "list_all alnum s \<Longrightarrow> camelCase s = s"
  by (rule camelCase_no_separator) (auto simp: list_all_iff alnum_not_separator)

lemma camelCase_keeps_letter:
  "\<exists>c \<in> set s. letter c \<Longrightarrow> \<exists>c \<in> set (camelCase s). letter c"
proof (induction s rule: camelCase.induct)
  case (1 c d cs)
  show ?case
  proof (cases "separator c \<and> lower d")
    case True
    then have "letter (toUpperCase d)"
      by (simp add: letter_def upper_toUpperCase)
    with True show ?thesis by simp
  next
    case False
    show ?thesis
    proof (cases "letter c")
      case True
      with False show ?thesis by auto
    next
      case nl: False
      with "1.prems" have "\<exists>x \<in> set (d # cs). letter x" by auto
      with "1.IH"(2) False have "\<exists>x \<in> set (camelCase (d # cs)). letter x" by blast
      with False show ?thesis by auto
    qed
  qed
qed auto

lemma stripInvalid_alnum: "list_all alnum (stripInvalid s)"
  by (simp add: stripInvalid_def list_all_iff)

lemma stripInvalid_id: "list_all alnum s \<Longrightarrow> stripInvalid s = s"
  by (simp add: stripInvalid_def list_all_iff)

lemma stripInvalid_keeps_letter:
  "\<exists>c \<in> set s. letter c \<Longrightarrow> \<exists>c \<in> set (stripInvalid s). letter c"
  by (auto simp: stripInvalid_def letter_def alnum_def)

lemma prefixLeadingDigit_nonempty: "t \<noteq> [] \<Longrightarrow> prefixLeadingDigit t \<noteq> []"
  by (auto simp: prefixLeadingDigit_def split: list.splits)

lemma prefixLeadingDigit_shape:
  "list_all alnum t \<Longrightarrow> lettersDigitsLeadingUnderscore (prefixLeadingDigit t)"
  by (auto simp: prefixLeadingDigit_def lettersDigitsLeadingUnderscore_def split: list.splits)

lemma prefixLeadingDigit_valid:
  assumes "list_all alnum t" and "t \<noteq> []"
  shows "isValidIdentifier (prefixLeadingDigit t)"
proof -
  obtain c cs where t: "t = c # cs" using assms(2) by (cases t) auto
  have parts: "list_all identPart (c # cs)"
    using assms(1) t by (auto simp: list_all_iff alnum_def identPart_def)
  show ?thesis
  proof (cases "digit c")
    case True
    then show ?thesis using parts t
      by (simp add: prefixLeadingDigit_def isValidIdentifier_def identStart_def)
  next
    case False
    moreover have "alnum c" using assms(1) t by simp
    ultimately have "identStart c" by (auto simp: alnum_def identStart_def)
    then show ?thesis using parts t False
      by (simp add: prefixLeadingDigit_def isValidIdentifier_def)
  qed
qed

text \<open>
  A string the last pass produced from letters and digits is a fixed point of the whole
  normalizer: the first pass finds no separator before a lower-case letter, the second
  removes at most the underscore the third puts back.
\<close>

lemma sanitize_prefixLeadingDigit:
  assumes "list_all alnum t"
  shows "sanitizeModuleFederationName (prefixLeadingDigit t) = prefixLeadingDigit t"
proof (cases t)
  case Nil
  then show ?thesis
    by (simp add: sanitizeModuleFederationName_def prefixLeadingDigit_def stripInvalid_def)
next
  case (Cons c cs)
  show ?thesis
  proof (cases "digit c")
    case True
    have "camelCase (CHR ''_'' # c # cs) = CHR ''_'' # camelCase (c # cs)"
      using True by (simp add: digit_not_lower)
    also have "camelCase (c # cs) = c # cs"
      using assms Cons by (simp add: camelCase_alnum)
    finally have "stripInvalid (camelCase (CHR ''_'' # c # cs)) = stripInvalid (c # cs)"
      by (simp add: stripInvalid_def underscore_not_alnum)
    also have "\<dots> = c # cs"
      using assms Cons by (simp add: stripInvalid_id)
    finally show ?thesis
      using True Cons by (simp add: sanitizeModuleFederationName_def prefixLeadingDigit_def)
  next
    case False
    then have "prefixLeadingDigit t = t"
      using Cons by (simp add: prefixLeadingDigit_def)
    then show ?thesis
      using assms by (simp add: sanitizeModuleFederationName_def camelCase_alnum stripInvalid_id)
  qed
qed

lemma sanitize_shape: "lettersDigitsLeadingUnderscore (sanitizeModuleFederationName x)"
  unfolding sanitizeModuleFederationName_def
  by (rule prefixLeadingDigit_shape) (rule stripInvalid_alnum)

lemma shape_no_hyphen: "lettersDigitsLeadingUnderscore s \<Longrightarrow> CHR ''-'' \<notin> set s"
  using hyphen_not_alnum
  by (auto simp: lettersDigitsLeadingUnderscore_def list_all_iff split: list.splits)

lemma sanitize_changes_hyphenated:
  "CHR ''-'' \<in> set x \<Longrightarrow> sanitizeModuleFederationName x \<noteq> x"
  using shape_no_hyphen [OF sanitize_shape, of x] by auto

section \<open>Properties of the normalizer\<close>

text \<open>
  C2, as the code has it: the normalizer maps \<open>my-remote-app\<close> to \<open>myRemoteApp\<close>,
  \<open>user_service\<close> to \<open>userService\<close> (an underscore before a lower-case letter is a separator
  like a hyphen: it is removed and the letter upper-cased) and \<open>2fast\<close> to \<open>_2fast\<close>.
\<close>

theorem sanitize_examples:
  "sanitizeModuleFederationName ''my-remote-app'' = ''myRemoteApp''
   \<and> sanitizeModuleFederationName ''user_service'' = ''userService''
   \<and> sanitizeModuleFederationName ''2fast'' = ''_2fast''"
  by code_simp

text \<open>
  C2 as stated fails on its second example: \<open>user_service\<close> is not left unchanged.
\<close>

theorem sanitize_user_service_changed:
  "sanitizeModuleFederationName ''user_service'' \<noteq> ''user_service''"
  by code_simp

text \<open>
  C5: the normalizer is idempotent, for every string.
\<close>

theorem sanitize_idempotent:
  "sanitizeModuleFederationName (sanitizeModuleFederationName x)
     = sanitizeModuleFederationName x"
  unfolding sanitizeModuleFederationName_def [of x]
  by (rule sanitize_prefixLeadingDigit) (rule stripInvalid_alnum)

text \<open>
  C6: for every non-empty string holding at least one letter of \<open>[A-Za-z]\<close>, the normalized
  name is non-empty, passes \<open>isValidIdentifier\<close>, and consists of letters and digits after at
  most one leading underscore.
\<close>

theorem sanitize_valid_identifier:
  assumes "x \<noteq> []" and "\<exists>c \<in> set x. letter c"
  shows "sanitizeModuleFederationName x \<noteq> []
       \<and> isValidIdentifier (sanitizeModuleFederationName x)
       \<and> lettersDigitsLeadingUnderscore (sanitizeModuleFederationName x)"
proof -
  let ?t = "stripInvalid (camelCase x)"
  have "\<exists>c \<in> set ?t. letter c"
    using assms(2) by (intro stripInvalid_keeps_letter camelCase_keeps_letter)
  then have ne: "?t \<noteq> []" by auto
  have al: "list_all alnum ?t" by (rule stripInvalid_alnum)
  show ?thesis
    unfolding sanitizeModuleFederationName_def
    using prefixLeadingDigit_nonempty [OF ne] prefixLeadingDigit_valid [OF al ne]
      prefixLeadingDigit_shape [OF al] by simp
qed

text \<open>
  The theorem of C6 at \<open>2-fast_lane\<close>, which starts with a digit and holds both separators.
\<close>

theorem sanitize_valid_identifier_witness:
  "sanitizeModuleFederationName ''2-fast_lane'' = ''_2FastLane''
   \<and> sanitizeModuleFederationName ''2-fast_lane'' \<noteq> []
   \<and> isValidIdentifier (sanitizeModuleFederationName ''2-fast_lane'')
   \<and> lettersDigitsLeadingUnderscore (sanitizeModuleFederationName ''2-fast_lane'')"
proof -
  have l: "letter CHR ''f''" by code_simp
  have h: "\<exists>c \<in> set ''2-fast_lane''. letter c" using l by simp
  have v: "sanitizeModuleFederationName ''2-fast_lane'' = ''_2FastLane''" by code_simp
  show ?thesis using v sanitize_valid_identifier [OF _ h] by simp
qed

section \<open>Properties of the configuration generator\<close>

text \<open>
  C1, as the code has it: \<open>generateHostConfig\<close> validates nothing and never fails. For every
  list of remotes, whatever their names, it returns a host configuration without an
  \<open>exposes\<close> field whose \<open>remotes\<close> list holds one entry per given remote, in the given
  order, with the same name and url and the entry file \<open>remoteEntry.js\<close>.
\<close>

theorem generateHostConfig_total:
  "cfg_type (generateHostConfig name port framework remotes) = host
   \<and> cfg_exposes (generateHostConfig name port framework remotes) = None
   \<and> cfg_remotes (generateHostConfig name port framework remotes)
       = Some (map (\<lambda>r. \<lparr>remote_name = ref_name r, remote_url = ref_url r,
                           remote_entry = Some ''remoteEntry.js''\<rparr>) remotes)"
  by (simp add: generateHostConfig_def)

text \<open>
  C1 as stated fails: \<open>bad-name\<close> is not a valid identifier, and for a remote of that name
  \<open>generateHostConfig\<close> returns a complete configuration that lists it.
\<close>

theorem generateHostConfig_bad_name:
  "\<not> isValidIdentifier ''bad-name''
   \<and> generateHostConfig ''shell'' 3000 react
        [\<lparr>ref_name = ''bad-name'', ref_url = ''http://localhost:3001/remoteEntry.js''\<rparr>]
     = \<lparr>cfg_name = ''shell'', cfg_type = host, cfg_port = 3000, cfg_framework = react,
        cfg_exposes = None,
        cfg_remotes = Some [\<lparr>remote_name = ''bad-name'',
                              remote_url = ''http://localhost:3001/remoteEntry.js'',
                              remote_entry = Some ''remoteEntry.js''\<rparr>],
        cfg_shared = Some (generateSharedConfig react),
        cfg_build = Some \<lparr>outputPath = Some ''dist'', publicPath = Some ''auto''\<rparr>,
        cfg_devServer = Some \<lparr>hot = Some True, historyApiFallback = Some True,
                               cors = Some True\<rparr>\<rparr>"
proof -
  have "\<not> isValidIdentifier ''bad-name''" by code_simp
  moreover have "sanitizeModuleFederationName ''shell'' = ''shell''" by code_simp
  ultimately show ?thesis by (simp add: generateHostConfig_def)
qed

text \<open>
  C3, as the code has it: \<open>generateRemoteConfig\<close> stores the exposed-modules map it is given,
  unchanged; the entry \<open>./App\<close> \<open>\<mapsto>\<close> \<open>./src/App\<close> is the default value of the parameter, used
  only when the argument is omitted, and then it is the whole map. The result never has a
  \<open>remotes\<close> field.
\<close>

theorem generateRemoteConfig_exposes:
  "cfg_exposes (generateRemoteConfig name port framework (Some exposes)) = Some exposes
   \<and> cfg_exposes (generateRemoteConfig name port framework None)
       = Some [(''./App'', ''./src/App'')]
   \<and> cfg_remotes (generateRemoteConfig name port framework exposesArg) = None"
  by (simp add: generateRemoteConfig_def)

text \<open>
  C3 as stated fails: given a map without the key \<open>./App\<close>, the result has no such key.
\<close>

theorem generateRemoteConfig_no_default:
  "cfg_exposes
     (generateRemoteConfig ''shop'' 3001 react (Some [(''./Button'', ''./src/Button'')]))
     = Some [(''./Button'', ''./src/Button'')]
   \<and> map_of [(''./Button'', ''./src/Button'')] ''./App'' = None"
  by (simp add: generateRemoteConfig_def)

text \<open>
  C4: the shared-dependency policy depends on the framework only. For \<open>react\<close> it has exactly
  two entries, \<open>react\<close> and \<open>react-dom\<close>, each a singleton requiring \<open>^18.0.0\<close>, neither strict
  nor eager; for \<open>vue\<close> it has exactly one entry, \<open>vue\<close>, a singleton requiring \<open>^3.0.0\<close>,
  neither strict nor eager.
\<close>

theorem generateSharedConfig_policy:
  "length (generateSharedConfig react) = 2
   \<and> map_of (generateSharedConfig react) ''react''
       = Some \<lparr>singleton = Some True, strictVersion = Some False,
               requiredVersion = Some ''^18.0.0'', eager = Some False\<rparr>
   \<and> map_of (generateSharedConfig react) ''react-dom''
       = Some \<lparr>singleton = Some True, strictVersion = Some False,
               requiredVersion = Some ''^18.0.0'', eager = Some False\<rparr>
   \<and> length (generateSharedConfig vue) = 1
   \<and> map_of (generateSharedConfig vue) ''vue''
       = Some \<lparr>singleton = Some True, strictVersion = Some False,
               requiredVersion = Some ''^3.0.0'', eager = Some False\<rparr>"
  by simp

text \<open>
  C10: the two implementations of the shared-dependency policy return the same mapping for
  every framework.
\<close>

theorem getSharedDependencies_eq_generateSharedConfig:
  "getSharedDependencies framework = generateSharedConfig framework"
  by (cases framework) simp_all

section \<open>Properties of the generated application\<close>

text \<open>
  C9: for every project configuration, the target directory and the \<open>name\<close> of the package
  manifest are the configured name as it is, and the \<open>name\<close> of the persisted federation
  configuration is its normalization; so for a configured name holding a hyphen the
  federation name differs from the directory and package name. This holds for the host
  generator and for the remote generator.
\<close>

theorem raw_name_kept_outside_federation_config:
  "projectPath (generateHostApp cwd config remotes) = [cwd, proj_name config]
   \<and> pkg_name (packageJsonFile (generateHostApp cwd config remotes)) = proj_name config
   \<and> cfg_name (mfConfigFile (generateHostApp cwd config remotes))
       = sanitizeModuleFederationName (proj_name config)
   \<and> projectPath (generateRemoteApp cwd config) = [cwd, proj_name config]
   \<and> pkg_name (packageJsonFile (generateRemoteApp cwd config)) = proj_name config
   \<and> cfg_name (mfConfigFile (generateRemoteApp cwd config))
       = sanitizeModuleFederationName (proj_name config)
   \<and> (CHR ''-'' \<in> set (proj_name config) \<longrightarrow>
        cfg_name (mfConfigFile (generateHostApp cwd config remotes)) \<noteq> proj_name config
        \<and> cfg_name (mfConfigFile (generateHostApp cwd config remotes))
            \<noteq> pkg_name (packageJsonFile (generateHostApp cwd config remotes))
        \<and> cfg_name (mfConfigFile (generateRemoteApp cwd config)) \<noteq> proj_name config
        \<and> cfg_name (mfConfigFile (generateRemoteApp cwd config))
            \<noteq> pkg_name (packageJsonFile (generateRemoteApp cwd config)))"
proof -
  have eqs:
    "projectPath (generateHostApp cwd config remotes) = [cwd, proj_name config]"
    "pkg_name (packageJsonFile (generateHostApp cwd config remotes)) = proj_name config"
    "cfg_name (mfConfigFile (generateHostApp cwd config remotes))
       = sanitizeModuleFederationName (proj_name config)"
    "projectPath (generateRemoteApp cwd config) = [cwd, proj_name config]"
    "pkg_name (packageJsonFile (generateRemoteApp cwd config)) = proj_name config"
    "cfg_name (mfConfigFile (generateRemoteApp cwd config))
       = sanitizeModuleFederationName (proj_name config)"
    by (simp_all add: generateHostApp_def generateRemoteApp_def generatePackageJson_def
        generateHostConfig_def generateRemoteConfig_def)
  have "CHR ''-'' \<in> set (proj_name config) \<Longrightarrow>
          sanitizeModuleFederationName (proj_name config) \<noteq> proj_name config"
    by (rule sanitize_changes_hyphenated)
  with eqs show ?thesis by simp
qed

text \<open>
  The theorem of C9 at a TypeScript project of framework \<open>vue\<close> named \<open>my-products-app\<close>:
  directory and package are called \<open>my-products-app\<close>, the federation configuration
  \<open>myProductsApp\<close>.
\<close>

theorem raw_name_kept_witness:
  "projectPath (generateRemoteApp ''/work''
        \<lparr>proj_type = remote, proj_name = ''my-products-app'', proj_port = 3001,
          proj_framework = vue, proj_typescript = True, proj_isMonorepo = False,
          proj_monorepoTool = None, proj_packageManager = pnpm\<rparr>)
      = [''/work'', ''my-products-app'']
   \<and> pkg_name (packageJsonFile (generateRemoteApp ''/work''
        \<lparr>proj_type = remote, proj_name = ''my-products-app'', proj_port = 3001,
          proj_framework = vue, proj_typescript = True, proj_isMonorepo = False,
          proj_monorepoTool = None, proj_packageManager = pnpm\<rparr>))
      = ''my-products-app''
   \<and> cfg_name (mfConfigFile (generateRemoteApp ''/work''
        \<lparr>proj_type = remote, proj_name = ''my-products-app'', proj_port = 3001,
          proj_framework = vue, proj_typescript = True, proj_isMonorepo = False,
          proj_monorepoTool = None, proj_packageManager = pnpm\<rparr>))
      = ''myProductsApp''
   \<and> cfg_name (mfConfigFile (generateRemoteApp ''/work''
        \<lparr>proj_type = remote, proj_name = ''my-products-app'', proj_port = 3001,
          proj_framework = vue, proj_typescript = True, proj_isMonorepo = False,
          proj_monorepoTool = None, proj_packageManager = pnpm\<rparr>))
      \<noteq> pkg_name (packageJsonFile (generateRemoteApp ''/work''
        \<lparr>proj_type = remote, proj_name = ''my-products-app'', proj_port = 3001,
          proj_framework = vue, proj_typescript = True, proj_isMonorepo = False,
          proj_monorepoTool = None, proj_packageManager = pnpm\<rparr>))"
proof -
  let ?config = "\<lparr>proj_type = remote, proj_name = ''my-products-app'', proj_port = 3001,
          proj_framework = vue, proj_typescript = True, proj_isMonorepo = False,
          proj_monorepoTool = None, proj_packageManager = pnpm\<rparr>"
  have h: "CHR ''-'' \<in> set (proj_name ?config)" by simp
  have v: "sanitizeModuleFederationName ''my-products-app'' = ''myProductsApp''"
    by code_simp
  show ?thesis
    using h v raw_name_kept_outside_federation_config [of "''/work''" ?config "[]"]
    by simp
qed

section \<open>Properties of the build-tool configuration\<close>

lemma map_of_assignProperty:
  "map_of (assignProperty obj k v) k' =
     (if k = k' \<and> k \<noteq> ''__proto__'' then Some v else map_of obj k')"
  by (simp add: assignProperty_def update_conv')

lemma forEachRemote_other:
  "k \<notin> set (map remote_name rs) \<Longrightarrow> map_of (forEachRemote rs obj) k = map_of obj k"
  by (induction rs arbitrary: obj) (auto simp: map_of_assignProperty)

lemma forEachRemote_append:
  "forEachRemote (xs @ ys) obj = forEachRemote ys (forEachRemote xs obj)"
  by (induction xs arbitrary: obj) auto

lemma forEachRemote_last:
  assumes "remote_name r \<notin> set (map remote_name post)" and "remote_name r \<noteq> ''__proto__''"
  shows "map_of (forEachRemote (pre @ r # post) obj) (remote_name r)
           = Some (remote_name r @ ''@'' @ remote_url r)"
  using assms by (simp add: forEachRemote_append forEachRemote_other map_of_assignProperty)

lemma forEachRemote_sound:
  "map_of (forEachRemote rs obj) k = Some v \<Longrightarrow>
     map_of obj k = Some v \<or> (\<exists>r \<in> set rs. k = remote_name r \<and> v = k @ ''@'' @ remote_url r)"
proof (induction rs arbitrary: obj)
  case Nil
  then show ?case by simp
next
  case (Cons r rs)
  from Cons.IH [OF Cons.prems [simplified]] show ?case
    by (auto simp: map_of_assignProperty split: if_splits)
qed

lemma remoteReference_host:
  assumes "cfg_type c = host" and "cfg_remotes c = Some rs"
  shows "remoteReference (moduleFederationConfig c) k = map_of (forEachRemote rs []) k"
proof (cases "forEachRemote rs []")
  case Nil
  then show ?thesis using assms
    by (simp add: remoteReference_def moduleFederationConfig_def buildRemotes_def Let_def)
next
  case (Cons a list)
  then show ?thesis using assms
    by (simp add: remoteReference_def moduleFederationConfig_def buildRemotes_def Let_def)
qed

text \<open>
  C7, as the code has it. For a configuration \<open>h\<close> of type host: an entry of its remotes list
  whose name does not occur again later in the list, and is not \<open>__proto__\<close>, is translated
  into the reference \<open>name@url\<close> stored under its name (a later entry of the same name
  replaces an earlier one); and every reference stored is \<open>name@url\<close> of some entry, stored
  under that name. For a configuration \<open>c\<close> of type remote the \<open>exposes\<close> map is passed
  through unchanged. The \<open>shared\<close> map is passed through unchanged, an absent one as the
  empty map.
\<close>

theorem moduleFederationConfig_translation:
  "(cfg_type h = host \<and> cfg_remotes h = Some (pre @ r # post)
      \<and> remote_name r \<notin> set (map remote_name post) \<and> remote_name r \<noteq> ''__proto__''
      \<longrightarrow> remoteReference (moduleFederationConfig h) (remote_name r)
            = Some (remote_name r @ ''@'' @ remote_url r))
   \<and> (cfg_type h = host \<and> cfg_remotes h = Some rs
        \<and> remoteReference (moduleFederationConfig h) k = Some v
      \<longrightarrow> (\<exists>r' \<in> set rs. k = remote_name r' \<and> v = remote_name r' @ ''@'' @ remote_url r'))
   \<and> (cfg_type c = remote \<longrightarrow> mf_exposes (moduleFederationConfig c) = cfg_exposes c)
   \<and> mf_shared (moduleFederationConfig c)
       = Some (case cfg_shared c of Some s \<Rightarrow> s | None \<Rightarrow> [])"
proof (intro conjI impI)
  assume "cfg_type h = host \<and> cfg_remotes h = Some (pre @ r # post)
      \<and> remote_name r \<notin> set (map remote_name post) \<and> remote_name r \<noteq> ''__proto__''"
  then show "remoteReference (moduleFederationConfig h) (remote_name r)
            = Some (remote_name r @ ''@'' @ remote_url r)"
    using remoteReference_host [of h "pre @ r # post" "remote_name r"]
      forEachRemote_last [of r post pre "[]"] by simp
next
  assume "cfg_type h = host \<and> cfg_remotes h = Some rs
        \<and> remoteReference (moduleFederationConfig h) k = Some v"
  then have "map_of (forEachRemote rs []) k = Some v"
    using remoteReference_host [of h rs k] by simp
  from forEachRemote_sound [OF this]
  show "\<exists>r' \<in> set rs. k = remote_name r' \<and> v = remote_name r' @ ''@'' @ remote_url r'"
    by auto
next
  assume "cfg_type c = remote"
  then show "mf_exposes (moduleFederationConfig c) = cfg_exposes c"
    by (simp add: moduleFederationConfig_def Let_def)
next
  show "mf_shared (moduleFederationConfig c)
       = Some (case cfg_shared c of Some s \<Rightarrow> s | None \<Rightarrow> [])"
    by (simp add: moduleFederationConfig_def Let_def)
qed

text \<open>
  The theorem of C7 at the host configuration generated for the remotes \<open>products\<close> and
  \<open>checkout\<close>, and at the remote configuration generated with the default exposed module.
\<close>

theorem moduleFederationConfig_translation_witness:
  "remoteReference
     (moduleFederationConfig
       (generateHostConfig ''shell'' 3000 react
         [\<lparr>ref_name = ''products'', ref_url = ''U1''\<rparr>,
          \<lparr>ref_name = ''checkout'', ref_url = ''U2''\<rparr>]))
     ''products'' = Some ''products@U1''
   \<and> mf_exposes (moduleFederationConfig (generateRemoteConfig ''shop'' 3001 vue None))
       = Some [(''./App'', ''./src/App'')]"
proof -
  let ?h = "generateHostConfig ''shell'' 3000 react
         [\<lparr>ref_name = ''products'', ref_url = ''U1''\<rparr>,
          \<lparr>ref_name = ''checkout'', ref_url = ''U2''\<rparr>]"
  let ?r = "\<lparr>remote_name = ''products'', remote_url = ''U1'',
             remote_entry = Some ''remoteEntry.js''\<rparr>"
  let ?post = "[\<lparr>remote_name = ''checkout'', remote_url = ''U2'',
             remote_entry = Some ''remoteEntry.js''\<rparr>]"
  let ?c = "generateRemoteConfig ''shop'' 3001 vue None"
  have h: "cfg_type ?h = host \<and> cfg_remotes ?h = Some ([] @ ?r # ?post)
      \<and> remote_name ?r \<notin> set (map remote_name ?post) \<and> remote_name ?r \<noteq> ''__proto__''"
    by (simp add: generateHostConfig_def)
  have c: "cfg_type ?c = remote" "cfg_exposes ?c = Some [(''./App'', ''./src/App'')]"
    by (simp_all add: generateRemoteConfig_def)
  show ?thesis
    using h c
      moduleFederationConfig_translation
        [of ?h "[]" ?r ?post "?r # ?post" "''products''" "''products@U1''" ?c]
    by simp
qed

text \<open>
  C7 as stated fails for a remotes list that repeats a name: the first \<open>cart\<close> entry, with
  the url of port 3001, has no reference of its own; under \<open>cart\<close> stands the reference of
  the second entry.
\<close>

theorem moduleFederationConfig_duplicate_name:
  "remoteReference
     (moduleFederationConfig
       (generateHostConfig ''shell'' 3000 react
         [\<lparr>ref_name = ''cart'', ref_url = ''http://localhost:3001/remoteEntry.js''\<rparr>,
          \<lparr>ref_name = ''cart'', ref_url = ''http://localhost:3002/remoteEntry.js''\<rparr>]))
     ''cart''
   = Some ''cart@http://localhost:3002/remoteEntry.js''"
  by (simp add: generateHostConfig_def moduleFederationConfig_def buildRemotes_def
      remoteReference_def assignProperty_def Let_def)

section \<open>Properties of the workspace task pipelines\<close>

lemma turbo_build:
  "dependsOn turborepo turboConfig ''build'' = [JString ''^build'']
   \<and> outputs turborepo turboConfig ''build'' = [JString ''dist/**'']
   \<and> cacheable turborepo turboConfig ''build''"
  by code_simp

lemma turbo_dev:
  "\<not> cacheable turborepo turboConfig ''dev'' \<and> markedPersistent turborepo turboConfig ''dev''"
  by code_simp

lemma turbo_clean:
  "\<not> cacheable turborepo turboConfig ''clean''
   \<and> dependsOn turborepo turboConfig ''clean'' = []
   \<and> dependents turborepo turboConfig ''clean'' = []"
  by code_simp

lemma nx_build:
  "dependsOn nx nxConfig ''build'' = [JString ''^build'']
   \<and> outputs nx nxConfig ''build'' = [JString ''{projectRoot}/dist'']
   \<and> cacheable nx nxConfig ''build''"
  by code_simp

lemma nx_dev:
  "\<not> cacheable nx nxConfig ''dev''
   \<and> \<not> markedPersistent nx nxConfig ''dev''
   \<and> dependsOn nx nxConfig ''dev'' = [JString ''^build'']"
  by code_simp

lemma nx_clean:
  "taskEntry nx nxConfig ''clean'' = None
   \<and> \<not> cacheable nx nxConfig ''clean''
   \<and> dependents nx nxConfig ''clean'' = []"
  by code_simp

text \<open>
  C8, as the code has it. In \<open>turbo.json\<close>: \<open>build\<close> depends on the \<open>build\<close> of every upstream
  member (\<open>^build\<close>), declares the output \<open>dist/**\<close> and is cached; \<open>dev\<close> is not cached and
  is persistent; \<open>clean\<close> is not cached, depends on nothing and nothing depends on it. In
  \<open>nx.json\<close>: \<open>build\<close> depends on \<open>^build\<close>, declares the output \<open>{projectRoot}/dist\<close> and is
  cached; \<open>dev\<close> is not cached, carries no persistent mark and depends on \<open>^build\<close>;
  \<open>clean\<close> has no entry, is not cached and nothing depends on it.
\<close>

theorem workspace_task_pipelines:
  "dependsOn turborepo (snd (generateTurborepoConfig rootPath config)) ''build''
     = [JString ''^build'']
   \<and> outputs turborepo (snd (generateTurborepoConfig rootPath config)) ''build''
     = [JString ''dist/**'']
   \<and> cacheable turborepo (snd (generateTurborepoConfig rootPath config)) ''build''
   \<and> \<not> cacheable turborepo (snd (generateTurborepoConfig rootPath config)) ''dev''
   \<and> markedPersistent turborepo (snd (generateTurborepoConfig rootPath config)) ''dev''
   \<and> \<not> cacheable turborepo (snd (generateTurborepoConfig rootPath config)) ''clean''
   \<and> dependsOn turborepo (snd (generateTurborepoConfig rootPath config)) ''clean'' = []
   \<and> dependents turborepo (snd (generateTurborepoConfig rootPath config)) ''clean'' = []
   \<and> dependsOn nx (snd (generateNxWorkspace rootPath config)) ''build'' = [JString ''^build'']
   \<and> outputs nx (snd (generateNxWorkspace rootPath config)) ''build''
     = [JString ''{projectRoot}/dist'']
   \<and> cacheable nx (snd (generateNxWorkspace rootPath config)) ''build''
   \<and> \<not> cacheable nx (snd (generateNxWorkspace rootPath config)) ''dev''
   \<and> \<not> markedPersistent nx (snd (generateNxWorkspace rootPath config)) ''dev''
   \<and> dependsOn nx (snd (generateNxWorkspace rootPath config)) ''dev'' = [JString ''^build'']
   \<and> taskEntry nx (snd (generateNxWorkspace rootPath config)) ''clean'' = None
   \<and> \<not> cacheable nx (snd (generateNxWorkspace rootPath config)) ''clean''
   \<and> dependents nx (snd (generateNxWorkspace rootPath config)) ''clean'' = []"
proof -
  have T: "snd (generateTurborepoConfig rootPath config) = turboConfig"
    by (simp add: generateTurborepoConfig_def)
  have N: "snd (generateNxWorkspace rootPath config) = nxConfig"
    by (simp add: generateNxWorkspace_def)
  show ?thesis
    unfolding T N using turbo_build turbo_dev turbo_clean nx_build nx_dev nx_clean by simp
qed

text \<open>
  C8 as stated fails for Nx: the \<open>dev\<close> entry of the emitted \<open>nx.json\<close> is not marked
  persistent.
\<close>

theorem nx_dev_not_persistent:
  "\<not> markedPersistent nx
       (snd (generateNxWorkspace ''workspace''
          \<lparr>proj_type = host, proj_name = ''shell'', proj_port = 3000, proj_framework = react,
            proj_typescript = True, proj_isMonorepo = True, proj_monorepoTool = Some nx,
            proj_packageManager = pnpm\<rparr>))
       ''dev''"
  unfolding generateNxWorkspace_def snd_conv by code_simp

end
